theory Spec2Isabelle
  imports Main
begin

section \<open>Data handed over by the parsing engine\<close>

text \<open>
  The analysis in \<^verbatim>\<open>src/index.ts\<close> never parses anything itself: it walks objects of
  the parsing engine. A syntax node is modelled with exactly the observations the
  analysis makes of it. \<open>nodeId\<close> stands for the identity of the object (JavaScript
  compares nodes in a \<^verbatim>\<open>Set\<close> by identity; two handles are the same object iff they are
  equal here, the id included). \<open>findReferences\<close> is the answer of
  \<^verbatim>\<open>identifier.findReferences()\<close>: one entry per referenced symbol, each the list of
  the \<^verbatim>\<open>fileName\<close>s of its \<^verbatim>\<open>references\<close>. \<open>getType\<close> is the answer of the helper
  \<^verbatim>\<open>getType(declaration)\<close> of \<^verbatim>\<open>./util\<close> (absent when the declaration is
  value-level) and \<open>getJSDocPublicTag\<close> says whether
  \<^verbatim>\<open>ts.getJSDocPublicTag(declaration.compilerNode)\<close> finds a tag; both helpers live
  outside \<^verbatim>\<open>src/index.ts\<close>, so their answers are carried by the node.
\<close>

datatype SyntaxKind =
    Identifier
  | FunctionDeclaration
  | ClassDeclaration
  | TypeAliasDeclaration
  | InterfaceDeclaration
  | EnumDeclaration
  | PropertyAccessExpression
  | VariableDeclaration
  | OtherKind

datatype Node =
  Node (nodeId: nat) (getKind: SyntaxKind) (getText: string)
       (findReferences: "string list list") (getType: "string option")
       (getJSDocPublicTag: bool) (getChildren: "Node list")

text \<open>
  A source file: its path, the \<^verbatim>\<open>Map\<close> of exported names to declaration lists (in
  insertion order, as \<^verbatim>\<open>forEach\<close> and \<^verbatim>\<open>values()\<close> visit it), and the answer of
  \<^verbatim>\<open>findReferencingNamespaceNodes(sourceFile)\<close>.
\<close>

record SourceFile =
  getFilePath :: string
  getExportedDeclarations :: "(string \<times> Node list) list"
  findReferencingNamespaceNodes :: "Node list"

section \<open>Configuration, issues and counters\<close>

record Include =
  files :: bool
  exports :: bool
  types :: bool
  members :: bool
  duplicates :: bool

record Configuration =
  cwd :: string
  isShowProgress :: bool
  included :: Include
  isReadPublicTag :: bool

record Issue =
  filePath :: string
  symbol :: string
  symbolType :: "string option"
  symbols :: "string list option"

type_synonym IssueMap = "string \<rightharpoonup> (string \<rightharpoonup> Issue)"

record Issues =
  files :: "string set"
  exports :: IssueMap
  types :: IssueMap
  duplicates :: IssueMap
  members :: IssueMap

record Counters =
  files :: nat
  exports :: nat
  types :: nat
  duplicates :: nat
  members :: nat
  processed :: nat

text \<open>\<^verbatim>\<open>Exclude<IssueType, 'files'>\<close>: the categories \<^verbatim>\<open>addIssue\<close> accepts.\<close>

datatype IssueType = Exports | Types | Duplicates | Members

text \<open>
  What is written to the terminal. \<^verbatim>\<open>getLine\<close> and \<^verbatim>\<open>LineRewriter\<close> belong to
  \<^verbatim>\<open>./log\<close>, so a message keeps the values the source passes to them: the first line
  (percentage, counter, total), a count with its label, the empty line, and the
  \<^verbatim>\<open>Processing:\<close> line with its relative path.
\<close>

datatype Message =
    ProcessedLine "nat option" nat nat
  | CountLine nat string
  | Blank
  | Processing string

datatype TerminalEvent = Update "Message list" | ResetLines

text \<open>
  The closure of \<open>run\<close>: what \<^verbatim>\<open>updateProcessingOutput\<close> and \<^verbatim>\<open>addIssue\<close> read from the
  enclosing scope. \<open>relative\<close> is \<^verbatim>\<open>path.relative\<close> of \<^verbatim>\<open>node:path\<close>, a parameter
  of the model.
\<close>

record Env =
  configuration :: Configuration
  relative :: "string \<Rightarrow> string \<Rightarrow> string"
  unusedProductionFiles :: "SourceFile list"
  usedNonEntryFiles :: "SourceFile list"

text \<open>The variables \<open>run\<close> mutates: \<^verbatim>\<open>issues\<close>, \<^verbatim>\<open>counters\<close> and the terminal.\<close>

record State =
  issues :: Issues
  counters :: Counters
  terminal :: "TerminalEvent list"

section \<open>Progress output\<close>

text \<open>
  \<^verbatim>\<open>Math.floor((counter / total) * 100)\<close>. The source divides in double precision;
  the model divides exactly, and \<open>None\<close> is the \<^verbatim>\<open>NaN\<close> of a zero total. The two agree
  wherever the exact quotient times 100 is not within rounding distance of an integer.
\<close>

definition percentageOf :: "nat \<Rightarrow> nat \<Rightarrow> nat option" where
  "percentageOf counter total' =
     (if total' = 0 then None else Some ((counter * 100) div total'))"

definition updateProcessingOutput :: "Env \<Rightarrow> Issue \<Rightarrow> State \<Rightarrow> State" where
  "updateProcessingOutput env item s =
     (let cfg = configuration env; inc = included cfg in
      if \<not> isShowProgress cfg then s
      else
        let counter = length (unusedProductionFiles env) + processed (counters s);
            total' = length (unusedProductionFiles env) + length (usedNonEntryFiles env);
            percentage = percentageOf counter total';
            messages =
              [ProcessedLine percentage counter total']
              @ (if Include.files inc
                 then [CountLine (length (unusedProductionFiles env)) ''unused files''] else [])
              @ (if Include.exports inc
                 then [CountLine (Counters.exports (counters s)) ''unused exports''] else [])
              @ (if Include.types inc
                 then [CountLine (Counters.types (counters s)) ''unused types''] else [])
              @ (if Include.members inc
                 then [CountLine (Counters.members (counters s)) ''unused namespace members'']
                 else [])
              @ (if Include.duplicates inc
                 then [CountLine (Counters.duplicates (counters s)) ''duplicate exports'']
                 else [])
              @ (if counter < total'
                 then [Blank, Processing (relative env (cwd cfg) (filePath item))] else [])
        in s\<lparr>terminal := terminal s @ [Update messages]\<rparr>)"

section \<open>The issue aggregator\<close>

text \<open>\<^verbatim>\<open>issues[issueType]\<close> and \<^verbatim>\<open>counters[issueType]\<close>, read and written.\<close>

fun getIssues :: "IssueType \<Rightarrow> Issues \<Rightarrow> IssueMap" where
  "getIssues Exports i = Issues.exports i"
| "getIssues Types i = Issues.types i"
| "getIssues Duplicates i = Issues.duplicates i"
| "getIssues Members i = Issues.members i"

fun setIssues :: "IssueType \<Rightarrow> IssueMap \<Rightarrow> Issues \<Rightarrow> Issues" where
  "setIssues Exports m i = i\<lparr>Issues.exports := m\<rparr>"
| "setIssues Types m i = i\<lparr>Issues.types := m\<rparr>"
| "setIssues Duplicates m i = i\<lparr>Issues.duplicates := m\<rparr>"
| "setIssues Members m i = i\<lparr>Issues.members := m\<rparr>"

fun getCounter :: "IssueType \<Rightarrow> Counters \<Rightarrow> nat" where
  "getCounter Exports c = Counters.exports c"
| "getCounter Types c = Counters.types c"
| "getCounter Duplicates c = Counters.duplicates c"
| "getCounter Members c = Counters.members c"

fun setCounter :: "IssueType \<Rightarrow> nat \<Rightarrow> Counters \<Rightarrow> Counters" where
  "setCounter Exports n c = c\<lparr>Counters.exports := n\<rparr>"
| "setCounter Types n c = c\<lparr>Counters.types := n\<rparr>"
| "setCounter Duplicates n c = c\<lparr>Counters.duplicates := n\<rparr>"
| "setCounter Members n c = c\<lparr>Counters.members := n\<rparr>"

text \<open>
  \<^verbatim>\<open>addIssue\<close> (lines 65-72): the key is the path relative to \<^verbatim>\<open>cwd\<close>; the entry of
  the file is created when missing (\<^verbatim>\<open>?? {}\<close>), the issue is stored under its symbol,
  the counter of the category goes up by one, and the progress is rendered when asked for.
\<close>

definition addIssue :: "Env \<Rightarrow> IssueType \<Rightarrow> Issue \<Rightarrow> State \<Rightarrow> State" where
  "addIssue env issueType issue s =
     (let cfg = configuration env;
          key = relative env (cwd cfg) (filePath issue);
          byFile = getIssues issueType (issues s);
          forFile = (case byFile key of None \<Rightarrow> Map.empty | Some m \<Rightarrow> m);
          s1 = s\<lparr>issues :=
                   setIssues issueType (byFile(key \<mapsto> forFile(symbol issue \<mapsto> issue))) (issues s),
                 counters :=
                   setCounter issueType (getCounter issueType (counters s) + 1) (counters s)\<rparr>
      in if isShowProgress cfg then updateProcessingOutput env issue s1 else s1)"

section \<open>Finding the identifier of a declaration\<close>

text \<open>
  The lookups of the parsing engine that lines 105-121 use. The two \<^verbatim>\<open>...OrThrow\<close>
  lookups raise when no child of the kind exists; \<^verbatim>\<open>getFirstDescendantByKind\<close> answers
  \<^verbatim>\<open>undefined\<close> instead. Descendants are visited depth first, in document order.
\<close>

datatype Error = ChildNotFound SyntaxKind

definition getFirstChildByKind :: "SyntaxKind \<Rightarrow> Node \<Rightarrow> Node option" where
  "getFirstChildByKind k n = find (\<lambda>c. getKind c = k) (getChildren n)"

definition getLastChildByKind :: "SyntaxKind \<Rightarrow> Node \<Rightarrow> Node option" where
  "getLastChildByKind k n = find (\<lambda>c. getKind c = k) (rev (getChildren n))"

fun descendants :: "Node \<Rightarrow> Node list" where
  "descendants (Node i k t r ty p cs) = concat (map (\<lambda>c. c # descendants c) cs)"

definition getFirstDescendantByKind :: "SyntaxKind \<Rightarrow> Node \<Rightarrow> Node option" where
  "getFirstDescendantByKind k n = find (\<lambda>d. getKind d = k) (descendants n)"

definition getFirstChildByKindOrThrow :: "SyntaxKind \<Rightarrow> Node \<Rightarrow> Error + Node" where
  "getFirstChildByKindOrThrow k n =
     (case getFirstChildByKind k n of None \<Rightarrow> Inl (ChildNotFound k) | Some c \<Rightarrow> Inr c)"

definition getLastChildByKindOrThrow :: "SyntaxKind \<Rightarrow> Node \<Rightarrow> Error + Node" where
  "getLastChildByKindOrThrow k n =
     (case getLastChildByKind k n of None \<Rightarrow> Inl (ChildNotFound k) | Some c \<Rightarrow> Inr c)"

text \<open>
  Lines 105-121: the chain of \<^verbatim>\<open>isKind\<close> tests that picks the identifier. The result is
  an error when a lookup raises, \<open>Inr None\<close> when \<^verbatim>\<open>identifier\<close> stays \<^verbatim>\<open>undefined\<close>.
\<close>

definition isNamedDeclaration :: "SyntaxKind \<Rightarrow> bool" where
  "isNamedDeclaration k =
     (k = FunctionDeclaration \<or> k = ClassDeclaration \<or> k = TypeAliasDeclaration
      \<or> k = InterfaceDeclaration \<or> k = EnumDeclaration)"

definition resolveIdentifier :: "Node \<Rightarrow> Error + Node option" where
  "resolveIdentifier declaration =
     (if getKind declaration = Identifier then Inr (Some declaration)
      else if isNamedDeclaration (getKind declaration)
      then (case getFirstChildByKindOrThrow Identifier declaration of
              Inl e \<Rightarrow> Inl e | Inr c \<Rightarrow> Inr (Some c))
      else if getKind declaration = PropertyAccessExpression
      then (case getLastChildByKindOrThrow Identifier declaration of
              Inl e \<Rightarrow> Inl e | Inr c \<Rightarrow> Inr (Some c))
      else Inr (getFirstDescendantByKind Identifier declaration))"

section \<open>Classifying one declaration\<close>

text \<open>JavaScript truthiness of \<^verbatim>\<open>type\<close>: \<^verbatim>\<open>undefined\<close> and the empty string are falsy.\<close>

definition truthy :: "string option \<Rightarrow> bool" where
  "truthy t = (case t of None \<Rightarrow> False | Some text \<Rightarrow> text \<noteq> [])"

text \<open>
  \<^verbatim>\<open>issues.exports[filePath]?.[identifierText]\<close>, and the same expression as a
  condition: an issue object is always truthy, so the test asks whether the entry exists.
  Names inherited from \<^verbatim>\<open>Object.prototype\<close> are not modelled.
\<close>

definition lookupIssue :: "IssueMap \<Rightarrow> string \<Rightarrow> string \<Rightarrow> Issue option" where
  "lookupIssue m file text = (case m file of None \<Rightarrow> None | Some forFile \<Rightarrow> forFile text)"

definition hasIssue :: "IssueMap \<Rightarrow> string \<Rightarrow> string \<Rightarrow> bool" where
  "hasIssue m file text = (lookupIssue m file text \<noteq> None)"

text \<open>
  Lines 135-137: \<^verbatim>\<open>refFiles\<close> is the set of all file names of all references;
  the identifier is referenced only by its own file when that set has the file's path as
  its one element.
\<close>

definition isReferencedOnlyBySelf :: "string list list \<Rightarrow> string \<Rightarrow> bool" where
  "isReferencedOnlyBySelf refs file = (remdups (concat refs) = [file])"

text \<open>
  The loops of the source are \<^verbatim>\<open>forEach\<close> calls; a raised error leaves all of them.
\<close>

fun forEach :: "('a \<Rightarrow> 's \<Rightarrow> Error + 's) \<Rightarrow> 'a list \<Rightarrow> 's \<Rightarrow> Error + 's" where
  "forEach f [] s = Inr s"
| "forEach f (x # xs) s = (case f x s of Inl e \<Rightarrow> Inl e | Inr s' \<Rightarrow> forEach f xs s')"

text \<open>
  Lines 98-101: with member analysis off, a type-level declaration is left out when
  type analysis is off, and a value-level one when export analysis is off.
\<close>

definition excludedByCategory :: "Include \<Rightarrow> string option \<Rightarrow> bool" where
  "excludedByCategory inc type =
     (\<not> Include.members inc
      \<and> ((\<not> Include.types inc \<and> truthy type) \<or> (\<not> Include.exports inc \<and> \<not> truthy type)))"

text \<open>
  Lines 126-128: the three tests for an issue already recorded. They read the maps at
  the file path the caller passes.
\<close>

definition alreadyReported :: "Include \<Rightarrow> Issues \<Rightarrow> string \<Rightarrow> string \<Rightarrow> bool" where
  "alreadyReported inc iss file text =
     ((Include.exports inc \<and> hasIssue (Issues.exports iss) file text)
      \<or> (Include.types inc \<and> hasIssue (Issues.types iss) file text)
      \<or> (Include.members inc \<and> hasIssue (Issues.members iss) file text))"

definition plainIssue :: "string \<Rightarrow> string \<Rightarrow> Issue" where
  "plainIssue file text = \<lparr>filePath = file, symbol = text, symbolType = None, symbols = None\<rparr>"

definition typeIssue :: "string \<Rightarrow> string \<Rightarrow> string option \<Rightarrow> Issue" where
  "typeIssue file text type =
     \<lparr>filePath = file, symbol = text, symbolType = type, symbols = None\<rparr>"

text \<open>
  Lines 95-151, the callback of the inner \<^verbatim>\<open>declarations.forEach\<close>. Every \<^verbatim>\<open>return\<close>
  of the callback leaves the state as it is. The guard of lines 126-128 is given
  \<^verbatim>\<open>filePath\<close>, the path of the file as the parsing engine answers it.
\<close>

definition visitDeclaration :: "Env \<Rightarrow> SourceFile \<Rightarrow> Node \<Rightarrow> State \<Rightarrow> Error + State" where
  "visitDeclaration env sourceFile declaration s =
     (let cfg = configuration env; inc = included cfg;
          filePath = getFilePath sourceFile;
          type = getType declaration in
      if excludedByCategory inc type then Inr s
      else if isReadPublicTag cfg \<and> getJSDocPublicTag declaration then Inr s
      else
        case resolveIdentifier declaration of
          Inl e \<Rightarrow> Inl e
        | Inr None \<Rightarrow> Inr s
        | Inr (Some identifier) \<Rightarrow>
            let identifierText = getText identifier in
            if alreadyReported inc (issues s) filePath identifierText then Inr s
            else
              let refs = findReferences identifier in
              if refs = [] then Inr (addIssue env Exports (plainIssue filePath identifierText) s)
              else if \<not> isReferencedOnlyBySelf refs filePath then Inr s
              else if findReferencingNamespaceNodes sourceFile \<noteq> [] then
                Inr (addIssue env Members (plainIssue filePath identifierText) s)
              else if truthy type then
                Inr (addIssue env Types (typeIssue filePath identifierText type) s)
              else Inr (addIssue env Exports (plainIssue filePath identifierText) s))"

section \<open>Duplicate exports\<close>

text \<open>\<^verbatim>\<open>symbols.join(',')\<close>.\<close>

fun join :: "string list \<Rightarrow> string" where
  "join [] = []"
| "join [x] = x"
| "join (x # y # ys) = x @ CHR '','' # join (y # ys)"

text \<open>
  Modelled from the spec: \<^verbatim>\<open>findDuplicateExportedNames\<close> of the package
  \<^verbatim>\<open>ts-morph-helpers\<close>, whose code is not under \<^verbatim>\<open>src/\<close>. The spec (4.2): group the
  exported names whose declaration group resolves to the same underlying declaration
  (identity, not structural equality); groups of size one are not reported. A declaration
  group resolves to its first declaration; the names of a group keep the order of the
  export map.
\<close>

definition resolvedDeclarations :: "SourceFile \<Rightarrow> (string \<times> Node) list" where
  "resolvedDeclarations sourceFile =
     concat (map (\<lambda>(name, declarations).
                    case declarations of [] \<Rightarrow> [] | d # _ \<Rightarrow> [(name, d)])
                 (getExportedDeclarations sourceFile))"

definition namesBoundTo :: "SourceFile \<Rightarrow> Node \<Rightarrow> string list" where
  "namesBoundTo sourceFile d =
     map fst (filter (\<lambda>(name, d'). d' = d) (resolvedDeclarations sourceFile))"

definition findDuplicateExportedNames :: "SourceFile \<Rightarrow> string list list" where
  "findDuplicateExportedNames sourceFile =
     filter (\<lambda>names. 2 \<le> length names)
       (map (namesBoundTo sourceFile) (remdups (map snd (resolvedDeclarations sourceFile))))"

text \<open>Lines 82-88: one \<^verbatim>\<open>duplicates\<close> issue per group the detector returns.\<close>

definition duplicateIssue :: "string \<Rightarrow> string list \<Rightarrow> Issue" where
  "duplicateIssue file names =
     \<lparr>filePath = file, symbol = join names, symbolType = None, symbols = Some names\<rparr>"

definition reportDuplicates :: "Env \<Rightarrow> SourceFile \<Rightarrow> State \<Rightarrow> State" where
  "reportDuplicates env sourceFile s =
     (if Include.duplicates (included (configuration env))
      then fold (\<lambda>names. addIssue env Duplicates (duplicateIssue (getFilePath sourceFile) names))
             (findDuplicateExportedNames sourceFile) s
      else s)"

section \<open>One file, and the whole run\<close>

definition incrementProcessed :: "State \<Rightarrow> State" where
  "incrementProcessed s = s\<lparr>counters := (counters s)\<lparr>processed := processed (counters s) + 1\<rparr>\<rparr>"

text \<open>
  Lines 76-155, the callback of \<^verbatim>\<open>usedNonEntryFiles.forEach\<close>. The \<^verbatim>\<open>return\<close> of line 92
  leaves the callback, so \<^verbatim>\<open>counters.processed++\<close> of line 154 is not reached there.
\<close>

definition visitSourceFile :: "Env \<Rightarrow> SourceFile \<Rightarrow> State \<Rightarrow> Error + State" where
  "visitSourceFile env sourceFile s =
     (let inc = included (configuration env);
          exportDeclarations = getExportedDeclarations sourceFile;
          s1 = reportDuplicates env sourceFile s in
      if Include.exports inc \<or> Include.types inc \<or> Include.members inc then
        let uniqueExportedSymbols = remdups (concat (map snd exportDeclarations)) in
        if length uniqueExportedSymbols = 1 then Inr s1
        else
          case forEach (\<lambda>declarations. forEach (visitDeclaration env sourceFile) declarations)
                 (map snd exportDeclarations) s1 of
            Inl e \<Rightarrow> Inl e
          | Inr s2 \<Rightarrow> Inr (incrementProcessed s2)
      else Inr (incrementProcessed s1))"

text \<open>
  Modelled from the spec: \<^verbatim>\<open>partitionSourceFiles\<close> of \<^verbatim>\<open>./util\<close>, which is not under
  \<^verbatim>\<open>src/\<close>. The spec (4.1): the candidates are split by membership of their path in the
  reference set, both parts keeping the order of the input.
\<close>

definition partitionSourceFiles ::
  "SourceFile list \<Rightarrow> SourceFile list \<Rightarrow> SourceFile list \<times> SourceFile list" where
  "partitionSourceFiles candidates referenceSet =
     (let paths = map getFilePath referenceSet in
      (filter (\<lambda>f. getFilePath f \<in> set paths) candidates,
       filter (\<lambda>f. getFilePath f \<notin> set paths) candidates))"

text \<open>
  \<open>run\<close>. The three file lists are what \<^verbatim>\<open>createProject\<close> and \<^verbatim>\<open>getSourceFiles\<close>
  answer: the entry files, the production files (entry files and their resolved
  dependencies) and the files of the whole project. The result is the final state; the
  source returns its \<^verbatim>\<open>issues\<close> and \<^verbatim>\<open>counters\<close>.
\<close>

definition initialState :: "SourceFile list \<Rightarrow> State" where
  "initialState unused =
     (let fileSet = set (map getFilePath unused) in
      \<lparr>issues = \<lparr>Issues.files = fileSet, exports = Map.empty, types = Map.empty,
                 duplicates = Map.empty, members = Map.empty\<rparr>,
       counters = \<lparr>Counters.files = card fileSet, exports = 0, types = 0,
                   duplicates = 0, members = 0, processed = card fileSet\<rparr>,
       terminal = []\<rparr>)"

definition run ::
  "(string \<Rightarrow> string \<Rightarrow> string) \<Rightarrow> Configuration \<Rightarrow>
   SourceFile list \<Rightarrow> SourceFile list \<Rightarrow> SourceFile list \<Rightarrow> Error + State" where
  "run pathRelative cfg entryFiles productionFiles projectFiles =
     (let (usedProductionFiles, unused) = partitionSourceFiles projectFiles productionFiles;
          (entry, usedNonEntry) = partitionSourceFiles usedProductionFiles entryFiles;
          env = \<lparr>configuration = cfg, relative = pathRelative,
                 unusedProductionFiles = unused, usedNonEntryFiles = usedNonEntry\<rparr>;
          inc = included cfg;
          s0 = initialState unused
      in case (if Include.exports inc \<or> Include.types inc \<or> Include.members inc
                  \<or> Include.duplicates inc
               then forEach (visitSourceFile env) usedNonEntry s0
               else Inr s0) of
           Inl e \<Rightarrow> Inl e
         | Inr s \<Rightarrow> Inr (if isShowProgress cfg then s\<lparr>terminal := terminal s @ [ResetLines]\<rparr>
                         else s))"

section \<open>Reading a result\<close>

text \<open>
  The state a run returns (\<open>None\<close> when it raised), and the issue a state holds in one
  category for a file key and a symbol.
\<close>

definition returned :: "Error + State \<Rightarrow> State option" where
  "returned r = (case r of Inl e \<Rightarrow> None | Inr s \<Rightarrow> Some s)"

definition reportedIssue :: "IssueType \<Rightarrow> string \<Rightarrow> string \<Rightarrow> State \<Rightarrow> Issue option" where
  "reportedIssue issueType file text s = lookupIssue (getIssues issueType (issues s)) file text"

section \<open>Example projects\<close>

text \<open>
  \<^verbatim>\<open>path.relative(from, to)\<close> for a file below \<open>from\<close>: the path with \<open>from\<close> and the
  separator taken off, as in \<^verbatim>\<open>path.relative('/p', '/p/b.ts') = 'b.ts'\<close>.
\<close>

definition relativeBelow :: "string \<Rightarrow> string \<Rightarrow> string" where
  "relativeBelow from to = drop (Suc (length from)) to"

definition includeAll :: Include where
  "includeAll = \<lparr>Include.files = True, exports = True, types = True, members = True,
                  duplicates = True\<rparr>"

definition includeFilesOnly :: Include where
  "includeFilesOnly = \<lparr>Include.files = True, exports = False, types = False, members = False,
                        duplicates = False\<rparr>"

definition quietConfig :: Configuration where
  "quietConfig = \<lparr>cwd = ''/p'', isShowProgress = False, included = includeAll,
                   isReadPublicTag = False\<rparr>"

definition progressConfig :: Configuration where
  "progressConfig = \<lparr>cwd = ''/p'', isShowProgress = True, included = includeAll,
                      isReadPublicTag = False\<rparr>"

definition filesOnlyConfig :: Configuration where
  "filesOnlyConfig = \<lparr>cwd = ''/p'', isShowProgress = False, included = includeFilesOnly,
                       isReadPublicTag = False\<rparr>"

definition identifierNode :: "nat \<Rightarrow> string \<Rightarrow> string list list \<Rightarrow> Node" where
  "identifierNode i text refs = Node i Identifier text refs None False []"

definition emptyFile :: "string \<Rightarrow> SourceFile" where
  "emptyFile path = \<lparr>getFilePath = path, getExportedDeclarations = [],
                      findReferencingNamespaceNodes = []\<rparr>"

text \<open>
  \<^verbatim>\<open>/p/b.ts\<close>: \<^verbatim>\<open>export interface Foo {}\<close> merged with \<^verbatim>\<open>export class Foo {}\<close>,
  the name referenced in this file only.
\<close>

definition mergedFile :: SourceFile where
  "mergedFile =
     \<lparr>getFilePath = ''/p/b.ts'',
      getExportedDeclarations =
        [(''Foo'',
          [Node 1 InterfaceDeclaration ''interface Foo {}'' [] (Some ''interface'') False
             [identifierNode 2 ''Foo'' [[''/p/b.ts'', ''/p/b.ts'']]],
           Node 3 ClassDeclaration ''class Foo {}'' [] None False
             [identifierNode 4 ''Foo'' [[''/p/b.ts'', ''/p/b.ts'']]]])],
      findReferencingNamespaceNodes = []\<rparr>"

text \<open>
  \<^verbatim>\<open>/p/d.ts\<close>: \<^verbatim>\<open>export const bar = 1\<close> and nothing else; \<open>bar\<close> is referenced nowhere.
\<close>

definition singleExportFile :: SourceFile where
  "singleExportFile =
     \<lparr>getFilePath = ''/p/d.ts'',
      getExportedDeclarations =
        [(''bar'', [Node 1 VariableDeclaration ''bar = 1'' [] None False
                     [identifierNode 2 ''bar'' []]])],
      findReferencingNamespaceNodes = []\<rparr>"

definition exampleEnv :: Env where
  "exampleEnv = \<lparr>configuration = quietConfig, relative = relativeBelow,
                  unusedProductionFiles = [], usedNonEntryFiles = [mergedFile]\<rparr>"

text \<open>
  \<^verbatim>\<open>/p/n.ts\<close>: an interface and a function, both referenced in this file only, and
  another file that reaches the module as a namespace object.
\<close>

definition optionsDeclaration :: Node where
  "optionsDeclaration =
     Node 10 InterfaceDeclaration ''interface Options {}'' [] (Some ''interface'') False
       [identifierNode 11 ''Options'' [[''/p/n.ts'']]]"

definition namespaceFile :: SourceFile where
  "namespaceFile =
     \<lparr>getFilePath = ''/p/n.ts'',
      getExportedDeclarations =
        [(''Options'', [optionsDeclaration]),
         (''helper'', [Node 12 FunctionDeclaration ''function helper() {}'' [] None False
                        [identifierNode 13 ''helper'' [[''/p/n.ts'']]]])],
      findReferencingNamespaceNodes =
        [Node 90 PropertyAccessExpression ''ns.helper'' [] None False []]\<rparr>"

text \<open>
  \<^verbatim>\<open>/p/m.ts\<close>: a constant nobody references, a type alias and a function referenced in
  this file only, and a function that \<^verbatim>\<open>/p/a.ts\<close> references too.
\<close>

definition unreferencedDeclaration :: Node where
  "unreferencedDeclaration =
     Node 20 VariableDeclaration ''unused = 1'' [] None False [identifierNode 21 ''unused'' []]"

definition aliasDeclaration :: Node where
  "aliasDeclaration =
     Node 22 TypeAliasDeclaration ''type Id = string'' [] (Some ''type'') False
       [identifierNode 23 ''Id'' [[''/p/m.ts'']]]"

definition localDeclaration :: Node where
  "localDeclaration =
     Node 24 FunctionDeclaration ''function local() {}'' [] None False
       [identifierNode 25 ''local'' [[''/p/m.ts'', ''/p/m.ts'']]]"

definition sharedDeclaration :: Node where
  "sharedDeclaration =
     Node 26 FunctionDeclaration ''function shared() {}'' [] None False
       [identifierNode 27 ''shared'' [[''/p/m.ts'', ''/p/a.ts'']]]"

definition mixedFile :: SourceFile where
  "mixedFile =
     \<lparr>getFilePath = ''/p/m.ts'',
      getExportedDeclarations =
        [(''unused'', [unreferencedDeclaration]), (''Id'', [aliasDeclaration]),
         (''local'', [localDeclaration]), (''shared'', [sharedDeclaration])],
      findReferencingNamespaceNodes = []\<rparr>"

text \<open>
  \<^verbatim>\<open>/p/e.ts\<close>: \<^verbatim>\<open>export default function () {}\<close>, a function declaration without a
  name, beside a constant. \<^verbatim>\<open>/p/l.ts\<close>: \<^verbatim>\<open>export default 42\<close>, an expression without
  any identifier, beside the same constant.
\<close>

definition anonymousDeclaration :: Node where
  "anonymousDeclaration =
     Node 30 FunctionDeclaration ''export default function () {}'' [] None False
       [Node 31 OtherKind ''{}'' [] None False []]"

definition literalDeclaration :: Node where
  "literalDeclaration = Node 32 OtherKind ''42'' [] None False []"

definition anonymousFile :: SourceFile where
  "anonymousFile =
     \<lparr>getFilePath = ''/p/e.ts'',
      getExportedDeclarations =
        [(''unused'', [unreferencedDeclaration]), (''default'', [anonymousDeclaration])],
      findReferencingNamespaceNodes = []\<rparr>"

definition literalFile :: SourceFile where
  "literalFile =
     \<lparr>getFilePath = ''/p/l.ts'',
      getExportedDeclarations =
        [(''unused'', [unreferencedDeclaration]), (''default'', [literalDeclaration])],
      findReferencingNamespaceNodes = []\<rparr>"

text \<open>
  \<^verbatim>\<open>/p/x.ts\<close>: \<^verbatim>\<open>export const a = 1; export { a as b }; export const c = 2\<close>, all
  three names used by other files.
\<close>

definition aliasedDeclaration :: Node where
  "aliasedDeclaration =
     Node 40 VariableDeclaration ''a = 1'' [] None False
       [identifierNode 41 ''a'' [[''/p/x.ts'', ''/p/a.ts'']]]"

definition otherDeclaration :: Node where
  "otherDeclaration =
     Node 42 VariableDeclaration ''c = 2'' [] None False
       [identifierNode 43 ''c'' [[''/p/x.ts'', ''/p/a.ts'']]]"

definition aliasFile :: SourceFile where
  "aliasFile =
     \<lparr>getFilePath = ''/p/x.ts'',
      getExportedDeclarations =
        [(''a'', [aliasedDeclaration]), (''b'', [aliasedDeclaration]),
         (''c'', [otherDeclaration])],
      findReferencingNamespaceNodes = []\<rparr>"



section \<open>Unfolding the model on an example\<close>

lemmas model_defs = run_def partitionSourceFiles_def initialState_def
     visitSourceFile_def reportDuplicates_def findDuplicateExportedNames_def resolvedDeclarations_def namesBoundTo_def
     visitDeclaration_def resolveIdentifier_def isNamedDeclaration_def getFirstChildByKindOrThrow_def getFirstChildByKind_def
     getLastChildByKindOrThrow_def getLastChildByKind_def getFirstDescendantByKind_def
     truthy_def hasIssue_def lookupIssue_def excludedByCategory_def alreadyReported_def
     isReferencedOnlyBySelf_def addIssue_def updateProcessingOutput_def percentageOf_def incrementProcessed_def Let_def
     returned_def reportedIssue_def plainIssue_def typeIssue_def duplicateIssue_def
lemmas example_defs = relativeBelow_def includeAll_def includeFilesOnly_def quietConfig_def progressConfig_def filesOnlyConfig_def
     identifierNode_def emptyFile_def mergedFile_def singleExportFile_def exampleEnv_def
     optionsDeclaration_def namespaceFile_def unreferencedDeclaration_def aliasDeclaration_def localDeclaration_def
     sharedDeclaration_def mixedFile_def anonymousDeclaration_def literalDeclaration_def anonymousFile_def literalFile_def
     aliasedDeclaration_def otherDeclaration_def aliasFile_def

section \<open>The aggregator writes one key and one counter\<close>

lemma getIssues_setIssues:
  "getIssues t (setIssues t' m i) = (if t = t' then m else getIssues t i)"
  by (cases t; cases t') simp_all

lemma getCounter_setCounter:
  "getCounter t (setCounter t' n c) = (if t = t' then n else getCounter t c)"
  by (cases t; cases t') simp_all




lemma issues_updateProcessingOutput: "issues (updateProcessingOutput env item s) = issues s"
  by (simp add: updateProcessingOutput_def Let_def)

lemma counters_updateProcessingOutput:
  "counters (updateProcessingOutput env item s) = counters s"
  by (simp add: updateProcessingOutput_def Let_def)

lemma issues_addIssue:
  "issues (addIssue env t issue s) =
     setIssues t
       ((getIssues t (issues s))
          (relative env (cwd (configuration env)) (filePath issue) \<mapsto>
             (case getIssues t (issues s)
                     (relative env (cwd (configuration env)) (filePath issue)) of
                None \<Rightarrow> Map.empty | Some m \<Rightarrow> m)(symbol issue \<mapsto> issue)))
       (issues s)"
  by (simp add: addIssue_def Let_def issues_updateProcessingOutput)

lemma counters_addIssue:
  "counters (addIssue env t issue s) =
     setCounter t (getCounter t (counters s) + 1) (counters s)"
  by (simp add: addIssue_def Let_def counters_updateProcessingOutput)

lemma reportedIssue_addIssue:
  "reportedIssue t file text (addIssue env t' issue s) =
     (if t = t' \<and> file = relative env (cwd (configuration env)) (filePath issue)
         \<and> text = symbol issue
      then Some issue else reportedIssue t file text s)"
  by (auto simp add: reportedIssue_def lookupIssue_def issues_addIssue getIssues_setIssues
        split: option.splits)

lemma duplicateIssue_sel:
  "filePath (duplicateIssue file names) = file" "symbol (duplicateIssue file names) = join names"
  by (simp_all add: duplicateIssue_def)

lemma fold_addIssue_counter:
  "getCounter t (counters (fold (\<lambda>x. addIssue env t (f x)) xs s)) =
     getCounter t (counters s) + length xs"
  by (induction xs arbitrary: s) (simp_all add: counters_addIssue getCounter_setCounter)

lemma fold_duplicates_untouched:
  "\<forall>g \<in> set gs. \<not> (file = relative env (cwd (configuration env)) path \<and> text = join g) \<Longrightarrow>
     reportedIssue Duplicates file text
       (fold (\<lambda>names. addIssue env Duplicates (duplicateIssue path names)) gs s) =
     reportedIssue Duplicates file text s"
  by (induction gs arbitrary: s) (auto simp add: reportedIssue_addIssue duplicateIssue_sel)

lemma fold_duplicates_written:
  "g \<in> set gs \<Longrightarrow> \<forall>g' \<in> set gs. join g' = join g \<longrightarrow> g' = g \<Longrightarrow>
     reportedIssue Duplicates (relative env (cwd (configuration env)) path) (join g)
       (fold (\<lambda>names. addIssue env Duplicates (duplicateIssue path names)) gs s) =
     Some (duplicateIssue path g)"
proof (induction gs arbitrary: s rule: rev_induct)
  case Nil
  then show ?case by simp
next
  case (snoc x xs)
  show ?case
  proof (cases "x = g")
    case True
    then show ?thesis by (simp add: reportedIssue_addIssue duplicateIssue_sel)
  next
    case False
    with snoc.prems have "g \<in> set xs" and "join x \<noteq> join g" by auto
    with snoc.IH [of s] snoc.prems(2) show ?thesis
      by (simp add: reportedIssue_addIssue duplicateIssue_sel)
  qed
qed







section \<open>Classification of a candidate declaration\<close>







section \<open>Declarations without an identifier\<close>





section \<open>The single-declaration skip\<close>




section \<open>A run that asks for unused files only\<close>

text \<open>
  C10. With the four flags \<open>exports\<close>, \<open>types\<close>, \<open>members\<close> and \<open>duplicates\<close> off, the run
  returns without visiting a file: the four issue maps are empty and their counters
  zero, \<open>files\<close> holds the paths of the unused files (the project files that are not
  production files), its counter is the size of that set and \<open>processed\<close> equals it, and
  nothing was rendered.
\<close>

theorem only_files_requested:
  assumes "\<not> Include.exports (included cfg)" and "\<not> Include.types (included cfg)"
    and "\<not> Include.members (included cfg)" and "\<not> Include.duplicates (included cfg)"
  shows "\<exists>s. run pathRelative cfg entryFiles productionFiles projectFiles = Inr s
           \<and> Issues.exports (issues s) = Map.empty \<and> Issues.types (issues s) = Map.empty
           \<and> Issues.members (issues s) = Map.empty \<and> Issues.duplicates (issues s) = Map.empty
           \<and> Counters.exports (counters s) = 0 \<and> Counters.types (counters s) = 0
           \<and> Counters.members (counters s) = 0 \<and> Counters.duplicates (counters s) = 0
           \<and> Issues.files (issues s) =
               getFilePath ` set (snd (partitionSourceFiles projectFiles productionFiles))
           \<and> Counters.files (counters s) = card (Issues.files (issues s))
           \<and> processed (counters s) = Counters.files (counters s)
           \<and> terminal s = (if isShowProgress cfg then [ResetLines] else [])"
  using assms
  by (cases "partitionSourceFiles projectFiles productionFiles";
      cases "partitionSourceFiles (fst (partitionSourceFiles projectFiles productionFiles)) entryFiles")
     (simp add: run_def initialState_def Let_def)


theorem only_files_requested_witness:
  "\<exists>s. run relativeBelow filesOnlyConfig [emptyFile ''/p/a.ts'']
          [emptyFile ''/p/a.ts'', mergedFile]
          [emptyFile ''/p/a.ts'', mergedFile, emptyFile ''/p/c.ts''] = Inr s
       \<and> Issues.exports (issues s) = Map.empty \<and> Issues.types (issues s) = Map.empty
       \<and> Issues.members (issues s) = Map.empty \<and> Issues.duplicates (issues s) = Map.empty
       \<and> Counters.exports (counters s) = 0 \<and> Counters.types (counters s) = 0
       \<and> Counters.members (counters s) = 0 \<and> Counters.duplicates (counters s) = 0
       \<and> Issues.files (issues s) = {''/p/c.ts''}
       \<and> Counters.files (counters s) = 1
       \<and> processed (counters s) = 1
       \<and> terminal s = []"
proof -
  have flags: "\<not> Include.exports (included filesOnlyConfig)"
    "\<not> Include.types (included filesOnlyConfig)"
    "\<not> Include.members (included filesOnlyConfig)"
    "\<not> Include.duplicates (included filesOnlyConfig)"
    by (simp_all add: filesOnlyConfig_def includeFilesOnly_def)
  have unused:
    "getFilePath ` set (snd (partitionSourceFiles
        [emptyFile ''/p/a.ts'', mergedFile, emptyFile ''/p/c.ts'']
        [emptyFile ''/p/a.ts'', mergedFile])) = {''/p/c.ts''}"
    by (simp add: partitionSourceFiles_def emptyFile_def mergedFile_def)
  have quiet: "\<not> isShowProgress filesOnlyConfig"
    by (simp add: filesOnlyConfig_def)
  from only_files_requested
         [OF flags, of relativeBelow "[emptyFile ''/p/a.ts'']"
            "[emptyFile ''/p/a.ts'', mergedFile]"
            "[emptyFile ''/p/a.ts'', mergedFile, emptyFile ''/p/c.ts'']", unfolded unused]
  obtain s where
    "run relativeBelow filesOnlyConfig [emptyFile ''/p/a.ts'']
       [emptyFile ''/p/a.ts'', mergedFile]
       [emptyFile ''/p/a.ts'', mergedFile, emptyFile ''/p/c.ts''] = Inr s"
    and "Issues.exports (issues s) = Map.empty" and "Issues.types (issues s) = Map.empty"
    and "Issues.members (issues s) = Map.empty" and "Issues.duplicates (issues s) = Map.empty"
    and "Counters.exports (counters s) = 0" and "Counters.types (counters s) = 0"
    and "Counters.members (counters s) = 0" and "Counters.duplicates (counters s) = 0"
    and "Issues.files (issues s) = {''/p/c.ts''}"
    and "Counters.files (counters s) = card (Issues.files (issues s))"
    and "processed (counters s) = Counters.files (counters s)"
    and "terminal s = (if isShowProgress filesOnlyConfig then [ResetLines] else [])"
    by blast
  with quiet show ?thesis by (intro exI [of _ s]) simp
qed

section \<open>Duplicate export groups\<close>

lemma takeWhile_comma_free:
  "CHR '','' \<notin> set x \<Longrightarrow> takeWhile (\<lambda>c. c \<noteq> CHR '','') (x @ CHR '','' # r) = x"
  by (induction x) auto

lemma join_inject:
  "\<forall>x \<in> set xs. CHR '','' \<notin> set x \<Longrightarrow> \<forall>y \<in> set ys. CHR '','' \<notin> set y \<Longrightarrow>
     xs \<noteq> [] \<Longrightarrow> ys \<noteq> [] \<Longrightarrow> join xs = join ys \<Longrightarrow> xs = ys"
proof (induction xs arbitrary: ys rule: join.induct)
  case 1
  then show ?case by simp
next
  case (2 x)
  show ?case
  proof (cases ys rule: join.cases)
    case 1
    with "2.prems" show ?thesis by simp
  next
    case (2 y)
    with "2.prems" show ?thesis by simp
  next
    case (3 y y' ys')
    with "2.prems" have "x = y @ CHR '','' # join (y' # ys')" by simp
    with "2.prems"(1) show ?thesis by auto
  qed
next
  case (3 x x' xs')
  show ?case
  proof (cases ys rule: join.cases)
    case 1
    with "3.prems" show ?thesis by simp
  next
    case (2 y)
    with "3.prems" have "y = x @ CHR '','' # join (x' # xs')" by simp
    with "3.prems"(2) 2 show ?thesis by auto
  next
    case (3 y y' ys')
    with "3.prems" have eq: "x @ CHR '','' # join (x' # xs') = y @ CHR '','' # join (y' # ys')"
      by simp
    from "3.prems"(1) have cx: "CHR '','' \<notin> set x" by simp
    from "3.prems"(2) 3 have cy: "CHR '','' \<notin> set y" by simp
    from eq have "takeWhile (\<lambda>c. c \<noteq> CHR '','') (x @ CHR '','' # join (x' # xs')) =
        takeWhile (\<lambda>c. c \<noteq> CHR '','') (y @ CHR '','' # join (y' # ys'))"
      by simp
    with cx cy have xy: "x = y" by (simp add: takeWhile_comma_free)
    with eq have "join (x' # xs') = join (y' # ys')" by simp
    with "3.IH" [of "y' # ys'"] "3.prems"(1,2) 3 have "x' # xs' = y' # ys'" by simp
    with xy 3 show ?thesis by simp
  qed
qed


lemma bound_names_resolved:
  "2 \<le> length (namesBoundTo sourceFile d) \<Longrightarrow> d \<in> set (map snd (resolvedDeclarations sourceFile))"
proof -
  assume "2 \<le> length (namesBoundTo sourceFile d)"
  then have "filter (\<lambda>(name, d'). d' = d) (resolvedDeclarations sourceFile) \<noteq> []"
    by (auto simp add: namesBoundTo_def)
  then obtain p where "p \<in> set (resolvedDeclarations sourceFile)" and "snd p = d"
    by (auto simp add: filter_empty_conv)
  then show ?thesis by force
qed

lemma set_findDuplicateExportedNames:
  "set (findDuplicateExportedNames sourceFile) =
     {namesBoundTo sourceFile d | d. 2 \<le> length (namesBoundTo sourceFile d)}"
  using bound_names_resolved [of sourceFile]
  by (auto simp add: findDuplicateExportedNames_def)

lemma length_findDuplicateExportedNames:
  "length (findDuplicateExportedNames sourceFile) =
     card {d. 2 \<le> length (namesBoundTo sourceFile d)}"
proof -
  let ?ds = "remdups (map snd (resolvedDeclarations sourceFile))"
  let ?P = "\<lambda>d. 2 \<le> length (namesBoundTo sourceFile d)"
  have "length (findDuplicateExportedNames sourceFile) = length (filter ?P ?ds)"
    by (simp add: findDuplicateExportedNames_def filter_map comp_def)
  also have "\<dots> = card (set (filter ?P ?ds))"
  proof -
    have "distinct (filter ?P ?ds)" by simp
    then show ?thesis by (rule distinct_card [symmetric])
  qed
  also have "set (filter ?P ?ds) = {d. ?P d}"
    using bound_names_resolved [of sourceFile] by auto
  finally show ?thesis .
qed

lemma names_of_group:
  "set (namesBoundTo sourceFile d) \<subseteq> fst ` set (getExportedDeclarations sourceFile)"
  by (force simp add: namesBoundTo_def resolvedDeclarations_def split: list.splits)

text \<open>
  C7. With duplicate analysis on and no comma inside an exported name: for every
  declaration that two or more exported names are bound to, the \<open>duplicates\<close> map of the
  file holds, under the names joined by commas in the order of the export map, the issue
  whose \<open>symbols\<close> is that list of names; the \<open>duplicates\<close> counter grows by the number of
  such declarations; and no other entry of the map is written, so a name alone on its
  declaration produces no issue.
\<close>

theorem duplicate_groups_reported_once:
  assumes "Include.duplicates (included (configuration env))"
    and "\<forall>name \<in> fst ` set (getExportedDeclarations sourceFile). CHR '','' \<notin> set name"
  shows "(\<forall>d. 2 \<le> length (namesBoundTo sourceFile d) \<longrightarrow>
            reportedIssue Duplicates
              (relative env (cwd (configuration env)) (getFilePath sourceFile))
              (join (namesBoundTo sourceFile d)) (reportDuplicates env sourceFile s) =
            Some (duplicateIssue (getFilePath sourceFile) (namesBoundTo sourceFile d)))
       \<and> getCounter Duplicates (counters (reportDuplicates env sourceFile s)) =
           getCounter Duplicates (counters s)
           + card {d. 2 \<le> length (namesBoundTo sourceFile d)}
       \<and> (\<forall>file text.
            \<not> (file = relative env (cwd (configuration env)) (getFilePath sourceFile)
               \<and> (\<exists>d. 2 \<le> length (namesBoundTo sourceFile d)
                      \<and> text = join (namesBoundTo sourceFile d)))
            \<longrightarrow> reportedIssue Duplicates file text (reportDuplicates env sourceFile s) =
                reportedIssue Duplicates file text s)"
proof (intro conjI allI impI)
  fix d
  assume big: "2 \<le> length (namesBoundTo sourceFile d)"
  let ?g = "namesBoundTo sourceFile d"
  have member: "?g \<in> set (findDuplicateExportedNames sourceFile)"
    using big by (auto simp add: set_findDuplicateExportedNames)
  have "\<forall>g' \<in> set (findDuplicateExportedNames sourceFile). join g' = join ?g \<longrightarrow> g' = ?g"
  proof (intro ballI impI)
    fix g'
    assume g': "g' \<in> set (findDuplicateExportedNames sourceFile)" and eq: "join g' = join ?g"
    from g' obtain d' where d': "g' = namesBoundTo sourceFile d'"
      and big': "2 \<le> length (namesBoundTo sourceFile d')"
      by (auto simp add: set_findDuplicateExportedNames)
    have "\<forall>x \<in> set g'. CHR '','' \<notin> set x"
      using assms(2) names_of_group [of sourceFile d'] d' by blast
    moreover have "\<forall>x \<in> set ?g. CHR '','' \<notin> set x"
      using assms(2) names_of_group [of sourceFile d] by blast
    moreover have "g' \<noteq> []" and "?g \<noteq> []" using big big' d' by auto
    ultimately show "g' = ?g" using eq by (rule join_inject)
  qed
  with member show "reportedIssue Duplicates
      (relative env (cwd (configuration env)) (getFilePath sourceFile))
      (join ?g) (reportDuplicates env sourceFile s) =
      Some (duplicateIssue (getFilePath sourceFile) ?g)"
    using assms(1) by (simp add: reportDuplicates_def fold_duplicates_written)
next
  show "getCounter Duplicates (counters (reportDuplicates env sourceFile s)) =
      getCounter Duplicates (counters s) + card {d. 2 \<le> length (namesBoundTo sourceFile d)}"
    using assms(1)
    by (simp add: reportDuplicates_def fold_addIssue_counter length_findDuplicateExportedNames)
next
  fix file' sym
  assume other: "\<not> (file' = relative env (cwd (configuration env)) (getFilePath sourceFile)
      \<and> (\<exists>d. 2 \<le> length (namesBoundTo sourceFile d) \<and> sym = join (namesBoundTo sourceFile d)))"
  then have "\<forall>g \<in> set (findDuplicateExportedNames sourceFile).
      \<not> (file' = relative env (cwd (configuration env)) (getFilePath sourceFile) \<and> sym = join g)"
    by (auto simp add: set_findDuplicateExportedNames)
  then show "reportedIssue Duplicates file' sym (reportDuplicates env sourceFile s) =
      reportedIssue Duplicates file' sym s"
    by (simp add: reportDuplicates_def fold_duplicates_untouched)
qed


theorem duplicate_groups_reported_once_witness:
  "reportedIssue Duplicates ''x.ts'' ''a,b'' (reportDuplicates exampleEnv aliasFile (initialState [])) =
     Some \<lparr>filePath = ''/p/x.ts'', symbol = ''a,b'', symbolType = None,
           symbols = Some [''a'', ''b'']\<rparr>
   \<and> getCounter Duplicates (counters (reportDuplicates exampleEnv aliasFile (initialState []))) = 1
   \<and> reportedIssue Duplicates ''x.ts'' ''a'' (reportDuplicates exampleEnv aliasFile (initialState [])) = None
   \<and> reportedIssue Duplicates ''x.ts'' ''b'' (reportDuplicates exampleEnv aliasFile (initialState [])) = None
   \<and> reportedIssue Duplicates ''x.ts'' ''c'' (reportDuplicates exampleEnv aliasFile (initialState [])) = None"
proof -
  let ?s = "reportDuplicates exampleEnv aliasFile (initialState [])"
  have on: "Include.duplicates (included (configuration exampleEnv))"
    by (simp add: exampleEnv_def quietConfig_def includeAll_def)
  have commas: "\<forall>name \<in> fst ` set (getExportedDeclarations aliasFile). CHR '','' \<notin> set name"
    by (simp add: aliasFile_def)
  have key: "relative exampleEnv (cwd (configuration exampleEnv)) (getFilePath aliasFile) = ''x.ts''"
    by (simp add: exampleEnv_def quietConfig_def relativeBelow_def aliasFile_def)
  have path: "getFilePath aliasFile = ''/p/x.ts''"
    by (simp add: aliasFile_def)
  have names: "namesBoundTo aliasFile d =
      (if d = aliasedDeclaration then [''a'', ''b'']
       else if d = otherDeclaration then [''c''] else [])" for d
    by (simp add: namesBoundTo_def resolvedDeclarations_def aliasFile_def
          aliasedDeclaration_def otherDeclaration_def)
  have groups: "{d. 2 \<le> length (namesBoundTo aliasFile d)} = {aliasedDeclaration}"
    by (auto simp add: names)
  have before: "reportedIssue Duplicates f t (initialState []) = None"
    "getCounter Duplicates (counters (initialState [])) = 0" for f t
    by (simp_all add: reportedIssue_def lookupIssue_def initialState_def)
  note th = duplicate_groups_reported_once [OF on commas, of "initialState []", unfolded key groups]
  from th [THEN conjunct1, rule_format, of aliasedDeclaration]
  have a: "reportedIssue Duplicates ''x.ts'' ''a,b'' ?s =
     Some \<lparr>filePath = ''/p/x.ts'', symbol = ''a,b'', symbolType = None,
           symbols = Some [''a'', ''b'']\<rparr>"
    by (simp add: names duplicateIssue_def path)
  from th [THEN conjunct2, THEN conjunct1]
  have b: "getCounter Duplicates (counters ?s) = 1"
    by (simp add: initialState_def)
  have c: "reportedIssue Duplicates ''x.ts'' t ?s = None" if "t \<noteq> ''a,b''" for t
    using th [THEN conjunct2, THEN conjunct2, rule_format, of "''x.ts''" t] that
    by (auto simp add: names before split: if_splits)
  from a b c [of "''a''"] c [of "''b''"] c [of "''c''"] show ?thesis by simp
qed

section \<open>Where the code departs from its own intent\<close>

text \<open>
  C1. The guard of lines 126-128 looks an identifier up under \<^verbatim>\<open>filePath\<close>, while
  \<^verbatim>\<open>addIssue\<close> stores under \<^verbatim>\<open>path.relative(cwd, filePath)\<close>: the guard never finds
  what was stored. In \<^verbatim>\<open>/p/b.ts\<close> the merged declarations of \<open>Foo\<close> are both reported,
  the interface under \<open>types\<close> and the class under \<open>exports\<close>, for the one file and name.
\<close>

theorem merged_declaration_reported_in_two_categories:
  "Option.bind
     (returned (run relativeBelow quietConfig [emptyFile ''/p/a.ts'']
        [emptyFile ''/p/a.ts'', mergedFile] [emptyFile ''/p/a.ts'', mergedFile]))
     (reportedIssue Types ''b.ts'' ''Foo'') =
     Some (typeIssue ''/p/b.ts'' ''Foo'' (Some ''interface''))
   \<and> Option.bind
       (returned (run relativeBelow quietConfig [emptyFile ''/p/a.ts'']
          [emptyFile ''/p/a.ts'', mergedFile] [emptyFile ''/p/a.ts'', mergedFile]))
       (reportedIssue Exports ''b.ts'' ''Foo'') =
       Some (plainIssue ''/p/b.ts'' ''Foo'')"
  by (simp add: model_defs example_defs)

text \<open>
  C3. The \<^verbatim>\<open>return\<close> of line 92 leaves the callback before line 154. One file is unused,
  so \<open>processed\<close> starts at 1; the one used non-entry file \<^verbatim>\<open>/p/d.ts\<close> has a single
  exported declaration, and after the run \<open>processed\<close> is still 1.
\<close>

theorem single_export_file_leaves_processed_unchanged:
  "processed (counters (initialState [emptyFile ''/p/c.ts''])) = 1
   \<and> snd (partitionSourceFiles [emptyFile ''/p/a.ts'', singleExportFile] [emptyFile ''/p/a.ts''])
       = [singleExportFile]
   \<and> map_option (processed \<circ> counters)
       (returned (run relativeBelow quietConfig [emptyFile ''/p/a.ts'']
          [emptyFile ''/p/a.ts'', singleExportFile]
          [emptyFile ''/p/a.ts'', singleExportFile, emptyFile ''/p/c.ts''])) = Some 1"
  by (simp add: model_defs example_defs)

text \<open>
  C6. \<open>processed\<close> starts at the number of unused files, and line 49 adds that number
  again. With two unused files and one used non-entry file, the first render, made
  before any file is finished, shows 4 of 3 files and 133 percent.
\<close>

theorem progress_shows_more_than_all_files:
  "map_option terminal
     (returned (run relativeBelow progressConfig [emptyFile ''/p/a.ts'']
        [emptyFile ''/p/a.ts'', mixedFile]
        [emptyFile ''/p/a.ts'', mixedFile, emptyFile ''/p/c.ts'', emptyFile ''/p/d.ts''])) =
     Some
      [Update
        [ProcessedLine (Some 133) 4 3, CountLine 2 ''unused files'',
         CountLine 1 ''unused exports'', CountLine 0 ''unused types'',
         CountLine 0 ''unused namespace members'', CountLine 0 ''duplicate exports''],
       Update
        [ProcessedLine (Some 133) 4 3, CountLine 2 ''unused files'',
         CountLine 1 ''unused exports'', CountLine 1 ''unused types'',
         CountLine 0 ''unused namespace members'', CountLine 0 ''duplicate exports''],
       Update
        [ProcessedLine (Some 133) 4 3, CountLine 2 ''unused files'',
         CountLine 2 ''unused exports'', CountLine 1 ''unused types'',
         CountLine 0 ''unused namespace members'', CountLine 0 ''duplicate exports''],
       ResetLines]"
  by (simp add: model_defs example_defs)


end
